theory Spec2Isabelle
  imports Main
begin

section \<open>Values, errors and text\<close>

text \<open>
  The program is a single Python script, \<^verbatim>\<open>fundgrube.py\<close>. Exceptions are values of
  the type \<open>error\<close>; a function that can raise returns \<open>error + 'a\<close> with \<open>Inl\<close> for
  the exception. \<open>Other\<close> carries the class name of an exception raised by an external
  collaborator (the HTTP request, the JSON decoder).
\<close>

datatype error =
    TypeError
  | AttributeError
  | KeyError
  | ValueError
  | FileNotFoundError
  | SMTPException
  | Other string

text \<open>
  The JSON values a posting carries. \<open>scalar\<close> are the values that are formatted into
  text (\<open>None\<close>, booleans, integers, strings); \<open>pyval\<close> adds the flat containers an
  \<^verbatim>\<open>outlet\<close> field can hold. JSON floats and nested containers are outside the model.
\<close>

datatype scalar = SNone | SBool bool | SInt int | SStr string

datatype pyval = Scalar scalar | PList "scalar list" | PDict "(string \<times> scalar) list"

text \<open>Python truthiness, as tested by \<^verbatim>\<open>if outlet:\<close> and \<^verbatim>\<open>if fil.price:\<close>.\<close>

fun scalar_truthy :: "scalar \<Rightarrow> bool" where
  "scalar_truthy SNone = False"
| "scalar_truthy (SBool b) = b"
| "scalar_truthy (SInt i) = (i \<noteq> 0)"
| "scalar_truthy (SStr s) = (s \<noteq> [])"

fun truthy :: "pyval \<Rightarrow> bool" where
  "truthy (Scalar v) = scalar_truthy v"
| "truthy (PList xs) = (xs \<noteq> [])"
| "truthy (PDict kvs) = (kvs \<noteq> [])"

text \<open>Decimal rendering of integers, as \<^verbatim>\<open>str\<close> and f-strings produce it.\<close>

definition digit_char :: "nat \<Rightarrow> char" where
  "digit_char n = ''0123456789'' ! (n mod 10)"

fun show_nat :: "nat \<Rightarrow> string" where
  "show_nat n = (if n < 10 then [digit_char n] else show_nat (n div 10) @ [digit_char n])"

definition show_int :: "int \<Rightarrow> string" where
  "show_int i = (if i < 0 then CHR ''-'' # show_nat (nat (- i)) else show_nat (nat i))"

text \<open>\<^verbatim>\<open>str(v)\<close> for a scalar, which is what \<^verbatim>\<open>f'{v}'\<close> inserts.\<close>

fun py_str :: "scalar \<Rightarrow> string" where
  "py_str SNone = ''None''"
| "py_str (SBool b) = (if b then ''True'' else ''False'')"
| "py_str (SInt i) = show_int i"
| "py_str (SStr s) = s"

section \<open>Posting\<close>

text \<open>
  A raw posting is the JSON object of one listing, seen through the nine keys the
  constructor names plus \<^verbatim>\<open>outlet\<close>: each is \<open>None\<close> when the key is missing from the
  object. \<open>raw_other_keys\<close> lists the remaining keys of the object, which
  \<^verbatim>\<open>**kwargs\<close> absorbs. The identifier is a string.
\<close>

record raw_posting =
  raw_posting_id :: "string option"
  raw_pim_id :: "scalar option"
  raw_name :: "scalar option"
  raw_original_url :: "scalar option"
  raw_posting_text :: "scalar option"
  raw_price :: "scalar option"
  raw_shipping_cost :: "scalar option"
  raw_discount_in_percent :: "scalar option"
  raw_outlet :: "pyval option"
  raw_other_keys :: "string list"

record posting =
  base_url :: string
  posting_id :: string
  pim_id :: scalar
  name :: scalar
  original_url :: scalar
  posting_text :: scalar
  price :: scalar
  shipping_cost :: scalar
  discount_in_percent :: scalar
  outlet_id :: scalar

text \<open>\<^verbatim>\<open>d.get(k)\<close> on a dict given by its items: the value, or \<open>None\<close>.\<close>

definition dict_get :: "(string \<times> scalar) list \<Rightarrow> string \<Rightarrow> scalar" where
  "dict_get kvs k = (case map_of kvs k of None \<Rightarrow> SNone | Some v \<Rightarrow> v)"

text \<open>
  Lines 35 to 38 of the constructor: a truthy outlet is asked for its \<^verbatim>\<open>id\<close>, which
  only a dict can answer; a falsy one gives \<open>None\<close>.
\<close>

definition outlet_id_of :: "pyval \<Rightarrow> error + scalar" where
  "outlet_id_of outlet =
     (if truthy outlet
      then (case outlet of PDict kvs \<Rightarrow> Inr (dict_get kvs ''id'') | _ \<Rightarrow> Inl AttributeError)
      else Inr SNone)"

text \<open>
  \<^verbatim>\<open>Posting(**post, **{'base_url': base_url})\<close>. The call fails with \<open>TypeError\<close>
  when the object has a key \<^verbatim>\<open>base_url\<close> or \<^verbatim>\<open>self\<close> of its own (two values for
  one parameter) and when one of the parameters without a default, \<^verbatim>\<open>outlet\<close> among
  them, has no value.
\<close>

definition Posting_init :: "string \<Rightarrow> raw_posting \<Rightarrow> error + posting" where
  "Posting_init base post =
     (if ''base_url'' \<in> set (raw_other_keys post) \<or> ''self'' \<in> set (raw_other_keys post)
      then Inl TypeError
      else
        (case (raw_posting_id post, raw_pim_id post, raw_name post, raw_original_url post,
               raw_posting_text post, raw_price post, raw_shipping_cost post,
               raw_discount_in_percent post, raw_outlet post) of
           (Some pid, Some pim, Some nm, Some ou, Some pt, Some pr, Some sc, Some dp, Some outlet) \<Rightarrow>
             (case outlet_id_of outlet of
                Inl e \<Rightarrow> Inl e
              | Inr oid \<Rightarrow>
                  Inr \<lparr>base_url = base, posting_id = pid, pim_id = pim, name = nm,
                       original_url = ou, posting_text = pt, price = pr, shipping_cost = sc,
                       discount_in_percent = dp, outlet_id = oid\<rparr>)
         | _ \<Rightarrow> Inl TypeError))"

definition get_direct_url :: "posting \<Rightarrow> string" where
  "get_direct_url p =
     base_url p @ ''?outletIds='' @ py_str (outlet_id p) @ ''&text='' @ py_str (pim_id p)"

text \<open>
  \<^verbatim>\<open>__str__\<close>. The parcel sign U+1F4E6 is written as its four UTF-8 bytes.
\<close>

definition parcel_sign :: string where
  "parcel_sign = [CHR 0xF0, CHR 0x9F, CHR 0x93, CHR 0xA6]"

definition Posting_str :: "posting \<Rightarrow> string" where
  "Posting_str p =
     py_str (name p) @ '' - '' @ py_str (price p) @ '' ('' @ parcel_sign @ '' ''
       @ py_str (shipping_cost p) @ '') ('' @ py_str (discount_in_percent p) @ '' %)''"

section \<open>The history store\<close>

text \<open>
  The content of the results file is modelled at the level of csv rows, in file order,
  each a list of cells; \<open>None\<close> stands for a file that does not exist. The quoting done
  by \<^verbatim>\<open>csv.writer\<close> and undone by the reader gives a cell back as written, up to the
  line ends inside it.
\<close>

type_synonym csv_file = "string list list"

text \<open>
  The history mapping \<^verbatim>\<open>result_dict\<close>. A key is \<open>Some\<close> of a cell, or \<open>None\<close> for
  Python's \<^verbatim>\<open>None\<close>, which \<^verbatim>\<open>DictReader\<close> supplies for a cell a short row lacks.
\<close>

type_synonym 'ts history = "string option \<Rightarrow> 'ts option"

definition header_row :: "string list" where
  "header_row = [''Date'', ''Id'', ''Name'', ''Price'', ''Url'']"

text \<open>
  One row as \<^verbatim>\<open>csv.DictReader\<close> yields it, read at string keys: a field name bound to
  its cell, or to \<open>None\<close> (\<^verbatim>\<open>restval\<close>) when the row is shorter than the field names;
  of a repeated field name the last occurrence counts. A key that is no field name is
  not in the dict.
\<close>

definition dict_row :: "string list \<Rightarrow> string list \<Rightarrow> (string \<Rightarrow> string option option)" where
  "dict_row fieldnames row =
     map_of (rev (zip fieldnames
       (map Some row @ replicate (length fieldnames - length row) None)))"

text \<open>The first row gives the field names; empty rows after it are skipped.\<close>

definition DictReader :: "csv_file \<Rightarrow> (string \<Rightarrow> string option option) list" where
  "DictReader rows =
     (case rows of
        [] \<Rightarrow> []
      | fieldnames # rest \<Rightarrow> map (dict_row fieldnames) (filter (\<lambda>r. r \<noteq> []) rest))"

text \<open>
  The loop of \<^verbatim>\<open>read_results_from_csv\<close>. In
  \<^verbatim>\<open>result_dict[row['Id']] = datetime.strptime(row['Date'], ...)\<close> the right-hand side
  is evaluated first. \<open>strptime\<close> is the library parser for the format
  \<^verbatim>\<open>%Y-%m-%d %H:%M:%S\<close>, \<open>None\<close> where it raises \<open>ValueError\<close>.
\<close>

fun read_rows :: "(string \<Rightarrow> 'ts option) \<Rightarrow> (string \<Rightarrow> string option option) list
    \<Rightarrow> 'ts history \<Rightarrow> error + 'ts history" where
  "read_rows strptime [] result_dict = Inr result_dict"
| "read_rows strptime (row # rows) result_dict =
     (case row ''Date'' of
        None \<Rightarrow> Inl KeyError
      | Some None \<Rightarrow> Inl TypeError
      | Some (Some date) \<Rightarrow>
          (case strptime date of
             None \<Rightarrow> Inl ValueError
           | Some ts \<Rightarrow>
               (case row ''Id'' of
                  None \<Rightarrow> Inl KeyError
                | Some ident \<Rightarrow> read_rows strptime rows (result_dict(ident \<mapsto> ts)))))"

definition read_results_from_csv :: "(string \<Rightarrow> 'ts option) \<Rightarrow> csv_file option
    \<Rightarrow> error + 'ts history" where
  "read_results_from_csv strptime old_file =
     (case old_file of
        None \<Rightarrow> Inl FileNotFoundError
      | Some rows \<Rightarrow> read_rows strptime (DictReader rows) Map.empty)"

text \<open>
  Lines 191 to 194 of the main block: the history is read only when the file exists,
  and is empty otherwise.
\<close>

definition load_history :: "(string \<Rightarrow> 'ts option) \<Rightarrow> csv_file option \<Rightarrow> error + 'ts history" where
  "load_history strptime old_file =
     (if old_file \<noteq> None then read_results_from_csv strptime old_file else Inr Map.empty)"

text \<open>A cell as \<^verbatim>\<open>csv.writer\<close> writes it: \<open>None\<close> as the empty string, else \<^verbatim>\<open>str\<close>.\<close>

definition csv_cell :: "scalar \<Rightarrow> string" where
  "csv_cell v = (if v = SNone then [] else py_str v)"

definition finding_row :: "('ts \<Rightarrow> string) \<Rightarrow> 'ts \<Rightarrow> posting \<Rightarrow> string list" where
  "finding_row strftime now fnd =
     [strftime now, posting_id fnd, csv_cell (name fnd), csv_cell (price fnd),
      get_direct_url fnd]"

fun write_findings :: "('ts \<Rightarrow> string) \<Rightarrow> 'ts \<Rightarrow> posting list \<Rightarrow> csv_file \<Rightarrow> csv_file" where
  "write_findings strftime now [] rows = rows"
| "write_findings strftime now (fnd # findings) rows =
     write_findings strftime now findings (rows @ [finding_row strftime now fnd])"

text \<open>
  The results file on disk. \<open>file_rows\<close> are the rows that \<^verbatim>\<open>csv.reader\<close> yields from
  its text. \<open>open_tail\<close> is \<open>None\<close> when the text is empty or ends where a record ends.
  Otherwise the text stops inside a record (its last line has no line terminator, or a
  quoted cell is not closed): the last of \<open>file_rows\<close> is what the reader makes of that
  unfinished record, and \<open>open_tail\<close> gives the file that results when the text of
  further rows is written after it.
\<close>

datatype stored_file =
  Stored_file (file_rows: csv_file) (open_tail: "(csv_file \<Rightarrow> stored_file) option")

definition rows_of :: "stored_file option \<Rightarrow> csv_file option" where
  "rows_of old_file = map_option file_rows old_file"

text \<open>
  The files are opened in text mode without \<^verbatim>\<open>newline=''\<close>: on reading, a carriage
  return with or without a line feed after it becomes a line feed. This is what a cell
  that was written reads back as.
\<close>

fun universal_newlines :: "string \<Rightarrow> string" where
  "universal_newlines [] = []"
| "universal_newlines [c] = (if c = CHR 0x0D then [CHR 0x0A] else [c])"
| "universal_newlines (c # d # cs) =
     (if c = CHR 0x0D
      then (if d = CHR 0x0A then CHR 0x0A # universal_newlines cs
            else CHR 0x0A # universal_newlines (d # cs))
      else c # universal_newlines (d # cs))"

text \<open>
  What \<^verbatim>\<open>writerow\<close> calls on a file opened with mode \<^verbatim>\<open>'a'\<close> do to the file, the
  line separator of the system being the line feed. Opening creates a missing file.
  Rows written after the end of a record are read back cell by cell; rows written after
  an unfinished record continue it, as \<open>open_tail\<close> says. Writing nothing leaves the
  file as it is.
\<close>

definition append_rows :: "stored_file option \<Rightarrow> csv_file \<Rightarrow> stored_file option" where
  "append_rows old_file written =
     (let read_back = map (map universal_newlines) written in
      case old_file of
        None \<Rightarrow> Some (Stored_file read_back None)
      | Some f \<Rightarrow>
          if written = [] then Some f
          else
            (case open_tail f of
               None \<Rightarrow> Some (Stored_file (file_rows f @ read_back) None)
             | Some continued \<Rightarrow> Some (continued written)))"

text \<open>
  \<^verbatim>\<open>save_results\<close>: the header is written when the file did not exist before, then
  one row for each finding, all with the time of the call.
\<close>

definition save_results :: "('ts \<Rightarrow> string) \<Rightarrow> 'ts \<Rightarrow> posting list \<Rightarrow> stored_file option
    \<Rightarrow> stored_file option" where
  "save_results strftime now findings old_file =
     (let existing = (old_file \<noteq> None);
          written = (if \<not> existing then [header_row] else []);
          written = write_findings strftime now findings written
      in append_rows old_file written)"

section \<open>Fetching and classifying\<close>

text \<open>
  \<^verbatim>\<open>GameFilter\<close>: the search text and the optional \<^verbatim>\<open>price\<close> of the configuration,
  \<open>None\<close> when not given. The field is called \<open>max_price\<close> here, \<open>price\<close> being a field
  of \<open>posting\<close>.
\<close>

record gamefilter =
  search :: string
  max_price :: scalar

definition base_mm :: string where
  "base_mm = ''https://www.mediamarkt.de/de/data/fundgrube''"

definition base_sa :: string where
  "base_sa = ''https://www.saturn.de/de/data/fundgrube''"

text \<open>
  The request URL of lines 198 to 203. \<open>quote\<close> is \<^verbatim>\<open>urllib.parse.quote\<close> with no
  safe characters.
\<close>

definition posting_url :: "(string \<Rightarrow> string) \<Rightarrow> string \<Rightarrow> gamefilter \<Rightarrow> string" where
  "posting_url quote base fil =
     base @ ''/api/postings?limit=32&offset=0&orderBy=new&recentFilter=text&text=''
       @ quote (search fil)
       @ (if scalar_truthy (max_price fil) then ''&priceMax='' @ py_str (max_price fil) else [])"

text \<open>
  The loop over one page of postings, lines 212 to 219: each raw posting is built into a
  \<open>posting\<close> and kept when the history has no entry for its identifier.
\<close>

fun scan_postings :: "string \<Rightarrow> 'ts history \<Rightarrow> raw_posting list \<Rightarrow> posting list
    \<Rightarrow> error + posting list" where
  "scan_postings base old_dict [] findings = Inr findings"
| "scan_postings base old_dict (post # posting_list) findings =
     (case Posting_init base post of
        Inl e \<Rightarrow> Inl e
      | Inr p \<Rightarrow>
          (case old_dict (Some (posting_id p)) of
             None \<Rightarrow> scan_postings base old_dict posting_list (findings @ [p])
           | Some entry \<Rightarrow> scan_postings base old_dict posting_list findings))"

text \<open>
  The loop over the endpoints, lines 200 to 219. \<open>request_postings\<close> stands for lines
  205 to 209: the HTTP request, the JSON decoding and the list under the key
  \<^verbatim>\<open>postings\<close>, or the exception one of them raises.
\<close>

fun scan_endpoints :: "(string \<Rightarrow> string) \<Rightarrow> (string \<Rightarrow> error + raw_posting list)
    \<Rightarrow> 'ts history \<Rightarrow> gamefilter \<Rightarrow> string list \<Rightarrow> posting list \<Rightarrow> error + posting list" where
  "scan_endpoints quote request_postings old_dict fil [] findings = Inr findings"
| "scan_endpoints quote request_postings old_dict fil (base # bases) findings =
     (case request_postings (posting_url quote base fil) of
        Inl e \<Rightarrow> Inl e
      | Inr posting_list \<Rightarrow>
          (case scan_postings base old_dict posting_list findings of
             Inl e \<Rightarrow> Inl e
           | Inr findings' \<Rightarrow>
               scan_endpoints quote request_postings old_dict fil bases findings'))"

text \<open>The loop over the filters, lines 197 to 219.\<close>

fun scan_filters :: "(string \<Rightarrow> string) \<Rightarrow> (string \<Rightarrow> error + raw_posting list)
    \<Rightarrow> 'ts history \<Rightarrow> gamefilter list \<Rightarrow> posting list \<Rightarrow> error + posting list" where
  "scan_filters quote request_postings old_dict [] findings = Inr findings"
| "scan_filters quote request_postings old_dict (fil # filter_list) findings =
     (case scan_endpoints quote request_postings old_dict fil [base_mm, base_sa] findings of
        Inl e \<Rightarrow> Inl e
      | Inr findings' \<Rightarrow> scan_filters quote request_postings old_dict filter_list findings')"

section \<open>The notifier\<close>

text \<open>
  What the script keeps between runs and what it sends: the results file, the file
  \<^verbatim>\<open>data/previous_error.txt\<close> (its content, or \<open>None\<close> when it does not exist; the
  directory \<^verbatim>\<open>data\<close> is taken to exist) and the mails the server has accepted.
\<close>

record mail =
  smtp_host :: string
  smtp_port :: string
  mail_from :: string
  mail_to :: string
  subject :: string
  body :: string

record world =
  results_file :: "stored_file option"
  previous_error_file :: "string option"
  outbox :: "mail list"

text \<open>
  The environment variables \<^verbatim>\<open>mail_notify\<close> reads, \<open>None\<close> when unset, and whether
  the SMTP session of lines 120 to 124 goes through (\<open>smtp_accepts\<close>) or raises.
\<close>

record mail_env =
  MAIL_SENDER :: "string option"
  MAIL_PASSWORD :: "string option"
  SMTP_SERVER :: "string option"
  SMTP_PORT :: "string option"
  MAIL_RECEIVER :: "string option"
  smtp_accepts :: bool

text \<open>
  An exception object handed to the notifier: the name of its class and its
  \<^verbatim>\<open>repr\<close>. An exception object is truthy.
\<close>

record py_exception =
  cls_name :: string
  exn_repr :: string

text \<open>\<^verbatim>\<open>error.__class__.__name__\<close>, which for \<^verbatim>\<open>None\<close> is the name of its class.\<close>

definition class_name :: "py_exception option \<Rightarrow> string" where
  "class_name error = (case error of None \<Rightarrow> ''NoneType'' | Some e \<Rightarrow> cls_name e)"

definition getenv_default :: "string option \<Rightarrow> string \<Rightarrow> string" where
  "getenv_default v d = (case v of None \<Rightarrow> d | Some s \<Rightarrow> s)"

fun join :: "string \<Rightarrow> string list \<Rightarrow> string" where
  "join sep [] = []"
| "join sep [x] = x"
| "join sep (x # y # ys) = x @ sep @ join sep (y # ys)"

definition posting_line :: "posting \<Rightarrow> string" where
  "posting_line post = Posting_str post @ '': '' @ get_direct_url post @ [CHR 0x0A]"

text \<open>
  Lines 97 to 108: the text and subject of the mail, with the change to the marker file
  that the chosen branch makes. \<^verbatim>\<open>os.remove\<close> raises when the file is not there.
\<close>

definition notify_content :: "int \<Rightarrow> posting list \<Rightarrow> py_exception option \<Rightarrow> world
    \<Rightarrow> error + (string \<times> string \<times> world)" where
  "notify_content new_count posting_list error w =
     (case error of
        Some e \<Rightarrow>
          Inr (exn_repr e, ''An error occured'', w\<lparr>previous_error_file := Some (cls_name e)\<rparr>)
      | None \<Rightarrow>
          if new_count > 0
          then Inr (join [CHR '' '', CHR 0x0A] (map posting_line posting_list),
                    show_int new_count @ '' new items'', w)
          else (case previous_error_file w of
                  None \<Rightarrow> Inl FileNotFoundError
                | Some old \<Rightarrow>
                    Inr (''Previous error fixed'', ''Error fixed'',
                         w\<lparr>previous_error_file := None\<rparr>)))"

text \<open>
  The mail of lines 92 to 95 and 111 to 118: server and port, sender and receiver, the
  subject with its prefix when the mail goes to the sender, and the text.
\<close>

definition build_message :: "mail_env \<Rightarrow> string \<Rightarrow> string \<Rightarrow> string \<Rightarrow> mail" where
  "build_message menv mail_sender subj message_text =
     (let server = getenv_default (SMTP_SERVER menv) ''smtp.gmail.com'';
          port = getenv_default (SMTP_PORT menv) ''587'';
          sender = ''Fundgrube Notifier <'' @ mail_sender @ ''>'';
          receiver = getenv_default (MAIL_RECEIVER menv) mail_sender
      in \<lparr>smtp_host = server, smtp_port = port, mail_from = sender, mail_to = receiver,
          subject = (if mail_sender = receiver then ''Fundgrube: '' @ subj else subj),
          body = message_text\<rparr>)"

text \<open>
  \<^verbatim>\<open>mail_notify\<close>. The result is the exception that leaves the function, if any,
  and the world as the call leaves it. An environment variable that is unset or empty
  is falsy.
\<close>

definition mail_notify :: "mail_env \<Rightarrow> int \<Rightarrow> posting list \<Rightarrow> py_exception option \<Rightarrow> world
    \<Rightarrow> (error + unit) \<times> world" where
  "mail_notify menv new_count posting_list error w =
     (let old_error = previous_error_file w in
      case (MAIL_SENDER menv, MAIL_PASSWORD menv) of
        (Some mail_sender, Some mail_password) \<Rightarrow>
          if mail_sender \<noteq> [] \<and> mail_password \<noteq> []
             \<and> (new_count > 0 \<or> Some (class_name error) \<noteq> old_error)
          then
            (case notify_content new_count posting_list error w of
               Inl e \<Rightarrow> (Inl e, w)
             | Inr (message_text, subj, w') \<Rightarrow>
                 if smtp_accepts menv
                 then (Inr (), w'\<lparr>outbox :=
                         outbox w' @ [build_message menv mail_sender subj message_text]\<rparr>)
                 else (Inl SMTPException, w'))
          else (Inr (), w)
      | _ \<Rightarrow> (Inr (), w))"

section \<open>The main block\<close>

text \<open>
  What one run is given from outside: the filters as \<^verbatim>\<open>read_games_from_json\<close>
  returns them, the library and network functions, the clock and the mail environment.
\<close>

record 'ts run_env =
  env_filters :: "gamefilter list"
  env_quote :: "string \<Rightarrow> string"
  env_request :: "string \<Rightarrow> error + raw_posting list"
  env_strptime :: "string \<Rightarrow> 'ts option"
  env_strftime :: "'ts \<Rightarrow> string"
  env_now :: 'ts
  env_mail :: mail_env

text \<open>
  Lines 190 to 226. No exception is caught: one that is raised ends the run with the
  world as it is. The notifier is called only when there are findings.
\<close>

definition main :: "'ts run_env \<Rightarrow> world \<Rightarrow> (error + unit) \<times> world" where
  "main env w =
     (case load_history (env_strptime env) (rows_of (results_file w)) of
        Inl e \<Rightarrow> (Inl e, w)
      | Inr old_dict \<Rightarrow>
          (case scan_filters (env_quote env) (env_request env) old_dict (env_filters env) [] of
             Inl e \<Rightarrow> (Inl e, w)
           | Inr findings \<Rightarrow>
               if length findings > 0
               then mail_notify (env_mail env) (int (length findings)) findings None
                      (w\<lparr>results_file :=
                          save_results (env_strftime env) (env_now env) findings (results_file w)\<rparr>)
               else (Inr (), w)))"


section \<open>The timestamp format\<close>

text \<open>
  The functions above take \<^verbatim>\<open>strftime\<close> and \<^verbatim>\<open>strptime\<close> as parameters. The two
  definitions below model them for the format \<^verbatim>\<open>%Y-%m-%d %H:%M:%S\<close> on timestamps of
  whole seconds with a four-digit year, every field written with its leading zeros (the
  library parser also reads fields without them; this one does not). They serve to
  evaluate the functions on concrete files.
\<close>

record datetime =
  dt_year :: nat
  dt_month :: nat
  dt_day :: nat
  dt_hour :: nat
  dt_minute :: nat
  dt_second :: nat

definition pad2 :: "nat \<Rightarrow> string" where
  "pad2 n = [digit_char (n div 10), digit_char n]"

definition pad4 :: "nat \<Rightarrow> string" where
  "pad4 n = [digit_char (n div 1000), digit_char (n div 100), digit_char (n div 10), digit_char n]"

definition strftime_ymdhms :: "datetime \<Rightarrow> string" where
  "strftime_ymdhms d =
     pad4 (dt_year d) @ ''-'' @ pad2 (dt_month d) @ ''-'' @ pad2 (dt_day d) @ '' ''
       @ pad2 (dt_hour d) @ '':'' @ pad2 (dt_minute d) @ '':'' @ pad2 (dt_second d)"

definition digit_val :: "char \<Rightarrow> nat option" where
  "digit_val c = (if c \<in> set ''0123456789'' then Some (of_char c - 48) else None)"

fun parse_digits :: "string \<Rightarrow> nat \<Rightarrow> nat option" where
  "parse_digits [] acc = Some acc"
| "parse_digits (c # cs) acc =
     (case digit_val c of None \<Rightarrow> None | Some d \<Rightarrow> parse_digits cs (10 * acc + d))"

definition leap_year :: "nat \<Rightarrow> bool" where
  "leap_year y = (y mod 4 = 0 \<and> (y mod 100 \<noteq> 0 \<or> y mod 400 = 0))"

definition days_in_month :: "nat \<Rightarrow> nat \<Rightarrow> nat" where
  "days_in_month y m =
     (if m = 2 then (if leap_year y then 29 else 28)
      else if m = 4 \<or> m = 6 \<or> m = 9 \<or> m = 11 then 30 else 31)"

definition strptime_ymdhms :: "string \<Rightarrow> datetime option" where
  "strptime_ymdhms s =
     (if length s = 19 \<and> s ! 4 = CHR ''-'' \<and> s ! 7 = CHR ''-'' \<and> s ! 10 = CHR '' ''
         \<and> s ! 13 = CHR '':'' \<and> s ! 16 = CHR '':''
      then
        (case (parse_digits (take 4 s) 0, parse_digits (take 2 (drop 5 s)) 0,
               parse_digits (take 2 (drop 8 s)) 0, parse_digits (take 2 (drop 11 s)) 0,
               parse_digits (take 2 (drop 14 s)) 0, parse_digits (take 2 (drop 17 s)) 0) of
           (Some y, Some m, Some d, Some h, Some mi, Some se) \<Rightarrow>
             if 1 \<le> y \<and> 1 \<le> m \<and> m \<le> 12 \<and> 1 \<le> d \<and> d \<le> days_in_month y m
                \<and> h < 24 \<and> mi < 60 \<and> se < 60
             then Some \<lparr>dt_year = y, dt_month = m, dt_day = d, dt_hour = h, dt_minute = mi,
                        dt_second = se\<rparr>
             else None
         | _ \<Rightarrow> None)
      else None)"

section \<open>Notions used in the statements\<close>

text \<open>A posting is new for a history that has no entry for its identifier.\<close>

definition is_new :: "'ts history \<Rightarrow> posting \<Rightarrow> bool" where
  "is_new history p = (history (Some (posting_id p)) = None)"

text \<open>
  The postings of one run in the order the main block meets them, filter by filter and
  endpoint by endpoint, with no history consulted. This is the reference the scanning
  loops are compared with; an exception of the request or of the constructor ends it.
\<close>

fun build_postings :: "string \<Rightarrow> raw_posting list \<Rightarrow> error + posting list" where
  "build_postings base [] = Inr []"
| "build_postings base (post # posting_list) =
     (case Posting_init base post of
        Inl e \<Rightarrow> Inl e
      | Inr p \<Rightarrow>
          (case build_postings base posting_list of Inl e \<Rightarrow> Inl e | Inr ps \<Rightarrow> Inr (p # ps)))"

fun fetch_endpoints :: "(string \<Rightarrow> string) \<Rightarrow> (string \<Rightarrow> error + raw_posting list)
    \<Rightarrow> gamefilter \<Rightarrow> string list \<Rightarrow> error + posting list" where
  "fetch_endpoints quote request_postings fil [] = Inr []"
| "fetch_endpoints quote request_postings fil (base # bases) =
     (case request_postings (posting_url quote base fil) of
        Inl e \<Rightarrow> Inl e
      | Inr posting_list \<Rightarrow>
          (case build_postings base posting_list of
             Inl e \<Rightarrow> Inl e
           | Inr ps \<Rightarrow>
               (case fetch_endpoints quote request_postings fil bases of
                  Inl e \<Rightarrow> Inl e
                | Inr qs \<Rightarrow> Inr (ps @ qs))))"

fun fetched_postings :: "(string \<Rightarrow> string) \<Rightarrow> (string \<Rightarrow> error + raw_posting list)
    \<Rightarrow> gamefilter list \<Rightarrow> error + posting list" where
  "fetched_postings quote request_postings [] = Inr []"
| "fetched_postings quote request_postings (fil # filter_list) =
     (case fetch_endpoints quote request_postings fil [base_mm, base_sa] of
        Inl e \<Rightarrow> Inl e
      | Inr ps \<Rightarrow>
          (case fetched_postings quote request_postings filter_list of
             Inl e \<Rightarrow> Inl e
           | Inr qs \<Rightarrow> Inr (ps @ qs)))"

text \<open>
  The records of the results file as the reader sees them, and the identifier each one
  answers to \<^verbatim>\<open>row['Id']\<close>.
\<close>

definition records :: "csv_file option \<Rightarrow> (string \<Rightarrow> string option option) list" where
  "records old_file = (case old_file of None \<Rightarrow> [] | Some rows \<Rightarrow> DictReader rows)"

definition record_ids :: "csv_file option \<Rightarrow> string option option list" where
  "record_ids old_file = map (\<lambda>row. row ''Id'') (records old_file)"



text \<open>
  The findings of a run that reaches line 221: the fetched postings that are new for
  the history loaded at the start of the run; none when loading or fetching raises.
\<close>

definition run_findings :: "'ts run_env \<Rightarrow> world \<Rightarrow> posting list" where
  "run_findings env w =
     (case load_history (env_strptime env) (rows_of (results_file w)) of
        Inl e \<Rightarrow> []
      | Inr m \<Rightarrow>
          (case fetched_postings (env_quote env) (env_request env) (env_filters env) of
             Inl e \<Rightarrow> []
           | Inr ps \<Rightarrow> filter (is_new m) ps))"




section \<open>Concrete inputs\<close>

definition ex_now :: datetime where
  "ex_now = \<lparr>dt_year = 2024, dt_month = 2, dt_day = 29, dt_hour = 7, dt_minute = 8,
      dt_second = 9\<rparr>"

definition ex_raw :: "string \<Rightarrow> raw_posting" where
  "ex_raw ident = \<lparr>raw_posting_id = Some ident, raw_pim_id = Some (SStr ''2703253''),
      raw_name = Some (SStr ''Switch''), raw_original_url = Some (SStr ''u''),
      raw_posting_text = Some (SStr ''t''), raw_price = Some (SStr ''149.00''),
      raw_shipping_cost = Some (SInt 0), raw_discount_in_percent = Some (SInt 25),
      raw_outlet = Some (PDict [(''id'', SInt 418)]), raw_other_keys = [''brand'']\<rparr>"

definition ex_posting :: "string \<Rightarrow> posting" where
  "ex_posting ident = \<lparr>base_url = base_mm, posting_id = ident, pim_id = SStr ''2703253'',
      name = SStr ''Switch'', original_url = SStr ''u'', posting_text = SStr ''t'',
      price = SStr ''149.00'', shipping_cost = SInt 0, discount_in_percent = SInt 25,
      outlet_id = SInt 418\<rparr>"

definition ex_filter :: gamefilter where
  "ex_filter = \<lparr>search = ''switch'', max_price = SInt 200\<rparr>"

definition ex_menv_off :: mail_env where
  "ex_menv_off = \<lparr>MAIL_SENDER = None, MAIL_PASSWORD = Some ''secret'', SMTP_SERVER = None,
      SMTP_PORT = None, MAIL_RECEIVER = None, smtp_accepts = True\<rparr>"

definition ex_menv_on :: mail_env where
  "ex_menv_on = \<lparr>MAIL_SENDER = Some ''me@example.org'', MAIL_PASSWORD = Some ''secret'',
      SMTP_SERVER = None, SMTP_PORT = None, MAIL_RECEIVER = None, smtp_accepts = True\<rparr>"

definition ex_menv_down :: mail_env where
  "ex_menv_down = \<lparr>MAIL_SENDER = Some ''me@example.org'', MAIL_PASSWORD = Some ''secret'',
      SMTP_SERVER = None, SMTP_PORT = None, MAIL_RECEIVER = None, smtp_accepts = False\<rparr>"

definition ex_error :: py_exception where
  "ex_error = \<lparr>cls_name = ''ConnectionError'', exn_repr = ''ConnectionError()''\<rparr>"

definition ex_world :: world where
  "ex_world = \<lparr>results_file = None, previous_error_file = None, outbox = []\<rparr>"



text \<open>A results file in which the identifier \<open>A\<close> has two records.\<close>

definition ex_file_twice :: csv_file where
  "ex_file_twice =
     [header_row,
      [''2024-02-27 10:00:00'', ''A'', ''Switch'', ''149.00'', ''u1''],
      [''2024-02-28 11:30:00'', ''Z'', ''Dock'', ''20.00'', ''u2''],
      [''2024-02-29 07:08:09'', ''A'', ''Switch'', ''139.00'', ''u3'']]"




text \<open>A posting whose identifier holds a carriage return, and a run that fetches it once.\<close>

definition ex_cr_id :: string where
  "ex_cr_id = [CHR ''A'', CHR 0x0D, CHR ''B'']"


text \<open>
  A run whose first request raises, and a run that fetches nothing, both with the mail
  credentials set.
\<close>

definition ex_env_failing :: "datetime run_env" where
  "ex_env_failing = \<lparr>env_filters = [ex_filter], env_quote = (\<lambda>s. s),
      env_request = (\<lambda>url. Inl (Other ''ConnectionError'')),
      env_strptime = strptime_ymdhms, env_strftime = strftime_ymdhms, env_now = ex_now,
      env_mail = ex_menv_on\<rparr>"

definition ex_env_quiet :: "datetime run_env" where
  "ex_env_quiet = \<lparr>env_filters = [ex_filter], env_quote = (\<lambda>s. s),
      env_request = (\<lambda>url. Inr []),
      env_strptime = strptime_ymdhms, env_strftime = strftime_ymdhms, env_now = ex_now,
      env_mail = ex_menv_on\<rparr>"

section \<open>Properties of the classifier\<close>

lemma scan_postings_filter:
  "scan_postings base old_dict raws acc =
     (case build_postings base raws of
        Inl e \<Rightarrow> Inl e
      | Inr ps \<Rightarrow> Inr (acc @ filter (is_new old_dict) ps))"
  by (induction raws arbitrary: acc) (auto simp: is_new_def split: sum.splits option.splits)

lemma scan_endpoints_filter:
  "scan_endpoints q r old_dict fil bases acc =
     (case fetch_endpoints q r fil bases of
        Inl e \<Rightarrow> Inl e
      | Inr ps \<Rightarrow> Inr (acc @ filter (is_new old_dict) ps))"
  by (induction bases arbitrary: acc) (auto simp: scan_postings_filter split: sum.splits)

lemma scan_filters_filter:
  "scan_filters q r old_dict fl acc =
     (case fetched_postings q r fl of
        Inl e \<Rightarrow> Inl e
      | Inr ps \<Rightarrow> Inr (acc @ filter (is_new old_dict) ps))"
  by (induction fl arbitrary: acc) (auto simp: scan_endpoints_filter split: sum.splits)

text \<open>
  Claim C2. For every history and whatever the endpoints return, the findings of the
  scanning loops are exactly the fetched postings whose identifier has no entry in the
  history, in the order in which they were fetched across filters and endpoints. The
  classification adds no failure of its own: the loops end in an exception only where
  fetching or building the postings does. With an empty history every fetched posting is
  a finding, and an empty page gives no finding.
\<close>

theorem classifier_keeps_unknown_in_order:
  "scan_filters quote request_postings old_dict filter_list [] =
     (case fetched_postings quote request_postings filter_list of
        Inl e \<Rightarrow> Inl e
      | Inr ps \<Rightarrow> Inr (filter (is_new old_dict) ps))
   \<and> scan_filters quote request_postings Map.empty filter_list [] =
       fetched_postings quote request_postings filter_list
   \<and> scan_postings base old_dict [] [] = Inr []"
  by (simp add: scan_filters_filter is_new_def split: sum.splits)

section \<open>Properties of the history store\<close>



lemma header_row_read_back: "map universal_newlines header_row = header_row"
  by (simp add: header_row_def)








lemma read_rows_append:
  "read_rows sp (xs @ ys) d =
     (case read_rows sp xs d of Inl e \<Rightarrow> Inl e | Inr d' \<Rightarrow> read_rows sp ys d')"
  by (induction xs arbitrary: d) (auto split: option.splits sum.splits)




lemma read_rows_other:
  "read_rows sp ds d = Inr m \<Longrightarrow> \<forall>row\<in>set ds. row ''Id'' \<noteq> Some k \<Longrightarrow> m k = d k"
  by (induction ds arbitrary: d) (auto split: option.splits)


lemma ex_stamp: "strftime_ymdhms ex_now = ''2024-02-29 07:08:09''"
  by (simp add: strftime_ymdhms_def ex_now_def pad2_def pad4_def digit_char_def)

lemma ex_parse: "strptime_ymdhms ''2024-02-29 07:08:09'' = Some ex_now"
  by (simp add: strptime_ymdhms_def digit_val_def days_in_month_def leap_year_def ex_now_def)

lemma ex_parse_Z:
  "strptime_ymdhms ''2024-02-28 11:30:00''
     = Some \<lparr>dt_year = 2024, dt_month = 2, dt_day = 28, dt_hour = 11, dt_minute = 30,
             dt_second = 0\<rparr>"
  by (simp add: strptime_ymdhms_def digit_val_def days_in_month_def leap_year_def)


lemmas run_eval = main_def load_history_def read_results_from_csv_def DictReader_def dict_row_def
  rows_of_def save_results_def append_rows_def finding_row_def header_row_def
  mail_notify_def posting_url_def Posting_init_def outlet_id_of_def dict_get_def
  record_ids_def records_def csv_cell_def get_direct_url_def show_int_def
  base_mm_def base_sa_def run_findings_def is_new_def
  ex_world_def ex_raw_def ex_filter_def ex_menv_off_def ex_menv_on_def ex_posting_def
  ex_cr_id_def ex_stamp ex_parse ex_parse_Z




text \<open>
  Claim C6. \<^verbatim>\<open>save_results\<close> with no findings leaves a results file that exists as
  it is and creates a missing one with the header row alone; the records the reader
  sees are the same before and after, and so is the history that is loaded, whatever
  the file held.
\<close>

theorem append_nothing:
  "save_results sf now [] (Some f) = Some f
   \<and> save_results sf now [] None = Some (Stored_file [header_row] None)
   \<and> records (rows_of (save_results sf now [] old_file)) = records (rows_of old_file)
   \<and> load_history sp (rows_of (save_results sf now [] old_file))
       = load_history sp (rows_of old_file)"
  by (cases old_file)
     (simp_all add: save_results_def append_rows_def rows_of_def load_history_def
       read_results_from_csv_def records_def DictReader_def header_row_read_back)

text \<open>
  Claim C8. When loading a results file succeeds, an identifier is bound to the
  timestamp of the last record that carries it: for a record \<open>r\<close> with identifier \<open>k\<close>
  after which no record has the identifier \<open>k\<close>, whatever records come before it, the
  loaded history binds \<open>k\<close> to the parsed date of \<open>r\<close>.
\<close>

theorem load_last_record_wins:
  assumes load: "load_history sp (Some (fieldnames # pre @ r # post)) = Inr m"
    and row: "r \<noteq> []" "dict_row fieldnames r ''Id'' = Some k"
    and last: "\<forall>r'\<in>set post. dict_row fieldnames r' ''Id'' \<noteq> Some k"
  shows "\<exists>date. dict_row fieldnames r ''Date'' = Some (Some date) \<and> m k = sp date"
proof -
  let ?A = "map (dict_row fieldnames) (filter (\<lambda>r. r \<noteq> []) pre)"
  let ?B = "map (dict_row fieldnames) (filter (\<lambda>r. r \<noteq> []) post)"
  have "read_rows sp (?A @ dict_row fieldnames r # ?B) Map.empty = Inr m"
    using load row(1)
    by (simp add: load_history_def read_results_from_csv_def DictReader_def)
  then obtain d where "read_rows sp (dict_row fieldnames r # ?B) d = Inr m"
    by (auto simp: read_rows_append split: sum.splits)
  then obtain date ts where
    date: "dict_row fieldnames r ''Date'' = Some (Some date)" "sp date = Some ts"
    and rest: "read_rows sp ?B (d(k \<mapsto> ts)) = Inr m"
    using row(2) by (auto split: option.splits)
  have "\<forall>row\<in>set ?B. row ''Id'' \<noteq> Some k"
    using last by auto
  from read_rows_other[OF rest this] have "m k = (d(k \<mapsto> ts)) k" .
  with date show ?thesis
    by simp
qed

theorem load_last_record_wins_witness:
  "(\<exists>m. load_history strptime_ymdhms (Some ex_file_twice) = Inr m
        \<and> m (Some ''A'') = strptime_ymdhms ''2024-02-29 07:08:09''
        \<and> m (Some ''A'') = Some ex_now)"
proof -
  let ?r = "[''2024-02-29 07:08:09'', ''A'', ''Switch'', ''139.00'', ''u3'']"
  let ?first = "[''2024-02-27 10:00:00'', ''A'', ''Switch'', ''149.00'', ''u1'']"
  let ?pre = "[?first, [''2024-02-28 11:30:00'', ''Z'', ''Dock'', ''20.00'', ''u2'']]"
  obtain m where m: "load_history strptime_ymdhms (Some (header_row # ?pre @ ?r # [])) = Inr m"
    by (simp add: load_history_def read_results_from_csv_def DictReader_def dict_row_def
        header_row_def strptime_ymdhms_def digit_val_def days_in_month_def leap_year_def)
  have id: "dict_row header_row ?r ''Id'' = Some (Some ''A'')"
    by (simp add: dict_row_def header_row_def)
  have date: "dict_row header_row ?r ''Date'' = Some (Some ''2024-02-29 07:08:09'')"
    by (simp add: dict_row_def header_row_def)
  have parsed: "strptime_ymdhms ''2024-02-29 07:08:09'' = Some ex_now"
    by code_simp
  from load_last_record_wins[OF m _ id] date have "m (Some ''A'') = strptime_ymdhms ''2024-02-29 07:08:09''"
    by simp
  with m parsed show ?thesis
    by (auto simp: ex_file_twice_def)
qed

section \<open>Runs of the main block\<close>

lemmas notify_defs = mail_notify_def notify_content_def class_name_def



text \<open>
  The main block catches no exception and calls the notifier in one place, with
  findings and without an error: a run whose fetch raises ends with the world as it
  was, so does a run without findings, and no run changes the marker file.
\<close>

lemma main_silent_without_findings:
  assumes "load_history (env_strptime env) (rows_of (results_file w)) = Inr m"
  shows "fetched_postings (env_quote env) (env_request env) (env_filters env) = Inl e
           \<Longrightarrow> main env w = (Inl e, w)"
    and "fetched_postings (env_quote env) (env_request env) (env_filters env) = Inr ps
           \<Longrightarrow> filter (is_new m) ps = [] \<Longrightarrow> main env w = (Inr (), w)"
  using assms by (simp_all add: main_def scan_filters_filter)

lemma main_keeps_marker:
  "previous_error_file (snd (main env w)) = previous_error_file w"
  by (auto simp: main_def notify_defs split: sum.splits option.splits)










text \<open>
  Claim C3 fails on the runs of the script. A run whose request raises, with the mail
  credentials set and no marker, ends with the exception: no mail is sent and no marker
  is written. A run without findings, with the marker of an earlier error in place,
  returns without a mail and leaves the marker.
\<close>

theorem failed_run_sends_nothing:
  "main ex_env_failing ex_world = (Inl (Other ''ConnectionError''), ex_world)
   \<and> main ex_env_quiet (ex_world\<lparr>previous_error_file := Some ''ConnectionError''\<rparr>)
       = (Inr (), ex_world\<lparr>previous_error_file := Some ''ConnectionError''\<rparr>)"
  by (simp add: run_eval ex_env_failing_def ex_env_quiet_def)

section \<open>Properties of the notifier\<close>

text \<open>
  The notifier by itself keeps the cycle of alerts, were it called with the outcome of
  every run: with the credentials set and a mail server that accepts mail, for a class
  name \<open>K\<close> other than that of \<^verbatim>\<open>None\<close> and a marker that is absent or holds another
  name, a call with an exception of class \<open>K\<close> and no findings sends one mail and sets
  the marker; a second such call sends nothing; a call without error and findings then
  sends one mail that the error is fixed and removes the marker; and a later call with
  an exception of class \<open>K\<close> sends one mail again.
\<close>

lemma error_alert_cycle:
  fixes pla plb plc pld :: "posting list"
  assumes creds: "MAIL_SENDER menv = Some s" "s \<noteq> []" "MAIL_PASSWORD menv = Some pw" "pw \<noteq> []"
    and up: "smtp_accepts menv"
    and kind: "cls_name ea = K" "cls_name eb = K" "cls_name ec = K" "K \<noteq> ''NoneType''"
    and marker: "previous_error_file w \<noteq> Some K"
  defines "wa \<equiv> w\<lparr>previous_error_file := Some K,
      outbox := outbox w @ [build_message menv s ''An error occured'' (exn_repr ea)]\<rparr>"
  defines "wb \<equiv> wa\<lparr>previous_error_file := None,
      outbox := outbox wa @ [build_message menv s ''Error fixed'' ''Previous error fixed'']\<rparr>"
  defines "wc \<equiv> wb\<lparr>previous_error_file := Some K,
      outbox := outbox wb @ [build_message menv s ''An error occured'' (exn_repr ec)]\<rparr>"
  shows "mail_notify menv 0 pla (Some ea) w = (Inr (), wa)
       \<and> mail_notify menv 0 plb (Some eb) wa = (Inr (), wa)
       \<and> mail_notify menv 0 plc None wa = (Inr (), wb)
       \<and> mail_notify menv 0 pld (Some ec) wb = (Inr (), wc)"
  using assms by (simp add: notify_defs)


text \<open>
  In general, the world after such a call is the world before it, and with the
  credentials set the call ends in the exception.
\<close>

lemma mail_notify_nothing_to_report:
  assumes "previous_error_file w = None"
  shows "snd (mail_notify menv 0 posting_list None w) = w"
  using assms by (simp add: notify_defs split: option.splits)

lemma mail_notify_nothing_to_report_raises:
  assumes "previous_error_file w = None"
    and "MAIL_SENDER menv = Some s" "s \<noteq> []" "MAIL_PASSWORD menv = Some pw" "pw \<noteq> []"
  shows "mail_notify menv 0 posting_list None w = (Inl FileNotFoundError, w)"
  using assms by (simp add: notify_defs)

text \<open>
  Claim C7. When the sender address or the password is unset or empty, the notifier
  returns without exception and leaves the world as it is, for every count, list of
  postings, error and marker.
\<close>

theorem mail_notify_no_credentials:
  assumes "MAIL_SENDER menv = None \<or> MAIL_SENDER menv = Some []
           \<or> MAIL_PASSWORD menv = None \<or> MAIL_PASSWORD menv = Some []"
  shows "mail_notify menv new_count posting_list error w = (Inr (), w)"
  using assms by (auto simp: mail_notify_def split: option.splits)

theorem mail_notify_no_credentials_witness:
  "MAIL_SENDER ex_menv_off = None
   \<and> mail_notify ex_menv_off 1 [ex_posting ''A''] (Some ex_error)
       (ex_world\<lparr>previous_error_file := Some ''KeyError''\<rparr>)
       = (Inr (), ex_world\<lparr>previous_error_file := Some ''KeyError''\<rparr>)"
proof -
  have h: "MAIL_SENDER ex_menv_off = None"
    by (simp add: ex_menv_off_def)
  then have "MAIL_SENDER ex_menv_off = None \<or> MAIL_SENDER ex_menv_off = Some []
      \<or> MAIL_PASSWORD ex_menv_off = None \<or> MAIL_PASSWORD ex_menv_off = Some []"
    by simp
  from mail_notify_no_credentials[OF this] h show ?thesis
    by simp
qed

text \<open>
  Claim C9. With the credentials set, an error of class \<open>K\<close> and the alert not
  suppressed (there are findings, or the marker does not hold \<open>K\<close>), a mail server that
  refuses the mail leaves the marker set to \<open>K\<close> and the outbox as it was: the marker is
  written before the transport is tried. A later call with an error of the same class
  and no findings then returns without sending, even with a server that accepts mail,
  so no mail about \<open>K\<close> is ever in the outbox.
\<close>

theorem marker_set_before_send:
  assumes creds: "MAIL_SENDER menv = Some s" "s \<noteq> []" "MAIL_PASSWORD menv = Some pw" "pw \<noteq> []"
    and down: "\<not> smtp_accepts menv"
    and kind: "cls_name e = K" "cls_name e' = K"
    and fresh: "new_count > 0 \<or> previous_error_file w \<noteq> Some K"
  shows "mail_notify menv new_count posting_list (Some e) w
           = (Inl SMTPException, w\<lparr>previous_error_file := Some K\<rparr>)
       \<and> mail_notify menv' 0 posting_list' (Some e') (w\<lparr>previous_error_file := Some K\<rparr>)
           = (Inr (), w\<lparr>previous_error_file := Some K\<rparr>)
       \<and> outbox (w\<lparr>previous_error_file := Some K\<rparr>) = outbox w"
  using assms by (auto simp: notify_defs split: option.splits)

theorem marker_set_before_send_witness:
  "\<not> smtp_accepts ex_menv_down
   \<and> mail_notify ex_menv_down 0 [] (Some ex_error) ex_world
       = (Inl SMTPException, ex_world\<lparr>previous_error_file := Some ''ConnectionError''\<rparr>)
   \<and> mail_notify ex_menv_on 0 [] (Some ex_error)
       (ex_world\<lparr>previous_error_file := Some ''ConnectionError''\<rparr>)
       = (Inr (), ex_world\<lparr>previous_error_file := Some ''ConnectionError''\<rparr>)
   \<and> outbox (ex_world\<lparr>previous_error_file := Some ''ConnectionError''\<rparr>) = []"
proof -
  have h: "MAIL_SENDER ex_menv_down = Some ''me@example.org''" "''me@example.org'' \<noteq> []"
    "MAIL_PASSWORD ex_menv_down = Some ''secret''" "''secret'' \<noteq> []"
    "\<not> smtp_accepts ex_menv_down"
    "cls_name ex_error = ''ConnectionError''"
    "0 < (0::int) \<or> previous_error_file ex_world \<noteq> Some ''ConnectionError''"
    by (simp_all add: ex_menv_down_def ex_error_def ex_world_def)
  from marker_set_before_send[where menv' = ex_menv_on and posting_list = "[]"
      and posting_list' = "[]", OF h(1-5) h(6) h(6) h(7)] h(5)
  show ?thesis
    by (simp add: ex_world_def)
qed

section \<open>Postings without an outlet\<close>




end
